theory Spec2Isabelle
  imports Main "HOL-Library.Sublist"
begin

section \<open>Python primitives used by the submission panel\<close>

text \<open>
  Strings are lists of characters. Only the ASCII range is modelled: a non-ASCII
  Python code point has no counterpart here. Exceptions are values of \<open>error\<close>;
  a function that can raise returns \<open>error + 'a\<close>, with \<open>Inl\<close> the exception.
\<close>

datatype error =
    ValueError
  | TypeError
  | KeyError
  | IndexError
  | UnboundLocalError
  | FileNotFoundError string
  | NotADirectoryError string
  | IsADirectoryError string
  | FileExistsError string

subsection \<open>Decimal text of integers: \<open>str(n)\<close>, \<open>int(s)\<close>, \<open>f"{n:02d}"\<close>\<close>

definition digit_char :: "nat \<Rightarrow> char" where
  "digit_char d = ''0123456789'' ! d"

definition is_digit :: "char \<Rightarrow> bool" where
  "is_digit c = (c \<in> set ''0123456789'')"

definition digit_val :: "char \<Rightarrow> nat" where
  "digit_val c = of_char c - 48"

fun str_nat :: "nat \<Rightarrow> string" where
  "str_nat n = (if n < 10 then [digit_char n] else str_nat (n div 10) @ [digit_char (n mod 10)])"

declare str_nat.simps [simp del]

definition str_int :: "int \<Rightarrow> string" where
  "str_int i = (if i < 0 then CHR ''-'' # str_nat (nat (- i)) else str_nat (nat i))"

text \<open>\<open>f"{n:02d}"\<close> for a non-negative \<open>n\<close>: at least two digits, padded with zeros.\<close>

definition fmt_02d :: "nat \<Rightarrow> string" where
  "fmt_02d n = replicate (2 - length (str_nat n)) (CHR ''0'') @ str_nat n"

text \<open>
  \<open>int(s)\<close> in base 10: surrounding whitespace is stripped, one sign is allowed, and
  the digits may be separated by single underscores. Anything else is a ValueError.
\<close>

definition py_isspace :: "char \<Rightarrow> bool" where
  "py_isspace c = (c \<in> set [CHR 0x09, CHR 0x0A, CHR 0x0B, CHR 0x0C, CHR 0x0D,
                             CHR 0x1C, CHR 0x1D, CHR 0x1E, CHR 0x1F, CHR 0x20])"

definition py_strip :: "string \<Rightarrow> string" where
  "py_strip s = rev (dropWhile py_isspace (rev (dropWhile py_isspace s)))"

fun parse_rest :: "nat \<Rightarrow> string \<Rightarrow> nat option" where
  "parse_rest acc [] = Some acc"
| "parse_rest acc (c # cs) =
     (if is_digit c then parse_rest (acc * 10 + digit_val c) cs
      else if c = CHR ''_'' then
        (case cs of
           [] \<Rightarrow> None
         | d # ds \<Rightarrow> if is_digit d then parse_rest (acc * 10 + digit_val d) ds else None)
      else None)"

definition parse_digits :: "string \<Rightarrow> nat option" where
  "parse_digits s =
     (case s of
        [] \<Rightarrow> None
      | c # cs \<Rightarrow> if is_digit c then parse_rest (digit_val c) cs else None)"

definition py_int :: "string \<Rightarrow> error + int" where
  "py_int s =
     (let t = py_strip s;
          (neg, body) = (case t of
                           c # r \<Rightarrow> if c = CHR ''-'' then (True, r)
                                    else if c = CHR ''+'' then (False, r)
                                    else (False, t)
                         | [] \<Rightarrow> (False, t))
      in case parse_digits body of
           None \<Rightarrow> Inl ValueError
         | Some n \<Rightarrow> Inr (if neg then - int n else int n))"

subsection \<open>\<open>str.split(sep)\<close> on one character and \<open>str.replace\<close>\<close>

fun split_on :: "char \<Rightarrow> string \<Rightarrow> string list" where
  "split_on sep [] = [[]]"
| "split_on sep (c # cs) =
     (if c = sep then [] # split_on sep cs
      else (case split_on sep cs of
              [] \<Rightarrow> [[c]]
            | w # ws \<Rightarrow> (c # w) # ws))"

text \<open>
  \<open>s.replace(old, new)\<close>: every non-overlapping occurrence of \<open>old\<close>, found from the
  left. With an empty \<open>old\<close>, Python puts \<open>new\<close> around every character.
\<close>

fun replace_ne :: "string \<Rightarrow> string \<Rightarrow> string \<Rightarrow> string" where
  "replace_ne old new [] = []"
| "replace_ne old new (c # cs) =
     (if old \<noteq> [] \<and> prefix old (c # cs)
      then new @ replace_ne old new (drop (length old - 1) cs)
      else c # replace_ne old new cs)"

definition py_replace :: "string \<Rightarrow> string \<Rightarrow> string \<Rightarrow> string" where
  "py_replace old new s =
     (if old = [] then new @ concat (map (\<lambda>c. c # new) s) else replace_ne old new s)"

subsection \<open>\<open>os.path\<close> on a POSIX host, and \<open>pathlib.Path(p).stem\<close>\<close>

text \<open>
  The host is taken to be POSIX (the fallback configuration file of the source lives
  under \<open>/Users/Shared\<close>), so \<open>os.path\<close> is \<open>posixpath\<close>: the only separator is the
  forward slash.
\<close>

definition sep_index :: "string \<Rightarrow> nat" where
  \<comment> \<open>\<open>p.rfind('/') + 1\<close>\<close>
  "sep_index p = length p - length (takeWhile (\<lambda>c. c \<noteq> CHR ''/'') (rev p))"

definition basename :: "string \<Rightarrow> string" where
  "basename p = drop (sep_index p) p"

definition dirname :: "string \<Rightarrow> string" where
  "dirname p =
     (let head = take (sep_index p) p
      in if head \<noteq> [] \<and> head \<noteq> replicate (length head) (CHR ''/'')
         then rev (dropWhile (\<lambda>c. c = CHR ''/'') (rev head))
         else head)"

definition join :: "string \<Rightarrow> string \<Rightarrow> string" where
  "join a b =
     (if b \<noteq> [] \<and> hd b = CHR ''/'' then b
      else if a = [] \<or> last a = CHR ''/'' then a @ b
      else a @ ''/'' @ b)"

definition path_name :: "string \<Rightarrow> string" where
  \<comment> \<open>\<open>PurePosixPath(p).name\<close>: the last component, empty and \<open>.\<close> components dropped\<close>
  "path_name p =
     (case filter (\<lambda>part. part \<noteq> [] \<and> part \<noteq> ''.'') (split_on (CHR ''/'') p) of
        [] \<Rightarrow> []
      | ps \<Rightarrow> last ps)"

definition rfind_dot :: "string \<Rightarrow> nat option" where
  "rfind_dot n =
     (if CHR ''.'' \<in> set n
      then Some (length n - 1 - length (takeWhile (\<lambda>c. c \<noteq> CHR ''.'') (rev n)))
      else None)"

definition stem :: "string \<Rightarrow> string" where
  "stem p =
     (let n = path_name p
      in case rfind_dot n of
           None \<Rightarrow> n
         | Some i \<Rightarrow> if 0 < i \<and> i < length n - 1 then take i n else n)"

section \<open>The form model\<close>

text \<open>
  A knob is a host object that holds a value, read with \<open>value()\<close>. The truth test
  of the knob object itself (\<open>if knob:\<close>) is Python's default for an object whose class
  defines neither \<open>__bool__\<close> nor \<open>__len__\<close>: it is true whatever the knob holds.
\<close>

datatype 'a knob = Knob (knob_value: 'a)

definition truthy :: "'a knob \<Rightarrow> bool" where
  "truthy k = True"

record panel =
  frame_range :: "string knob"
  department :: "string knob"
  comment :: "string knob"
  chunk_size :: "int knob"
  priority :: "int knob"
  render_review :: "bool knob"
  add_slate :: "bool knob"
  add_burn :: "bool knob"

definition get_adjusted_frame_range :: "panel \<Rightarrow> error + string" where
  "get_adjusted_frame_range self =
     (let frame_range_str = knob_value (frame_range self)
      in case split_on (CHR ''-'') frame_range_str of
           [a, b] \<Rightarrow>
             (case py_int a of
                Inl e \<Rightarrow> Inl e
              | Inr start_frame \<Rightarrow>
                  (case py_int b of
                     Inl e \<Rightarrow> Inl e
                   | Inr end_frame \<Rightarrow>
                       Inr (str_int (if truthy (add_slate self) then start_frame - 1
                                     else start_frame)
                            @ ''-'' @ str_int end_frame)))
         | _ \<Rightarrow> Inl ValueError)"

section \<open>The host: environment, files, scene and user\<close>

text \<open>
  Everything the panel reads from or does to its surroundings is a field of \<open>world\<close>:
  the three environment variables, \<open>platform.system()\<close>, the regular files (path and
  content) and directories, the name of the root script, the production context, the
  scene's nodes, the answers the user gives and the results the farm tool returns.
  Paths are compared as written. Output of \<open>print\<close> and the selected and disabled
  flags of nodes, which the panel sets and never reads, are left out.
\<close>

record node =
  node_name :: string
  node_class :: string
  file_knob :: string             \<comment> \<open>\<open>node["file"].value()\<close>\<close>
  cached_path :: "string option"  \<comment> \<open>\<open>None\<close>: the node has no such knob (NameError)\<close>

datatype event =
    Message string                \<comment> \<open>\<open>nuke.message(text)\<close>\<close>
  | ErrorMessage string error     \<comment> \<open>\<open>nuke.message(f"{text}{e}")\<close> for an exception \<open>e\<close>\<close>
  | Ask string                    \<comment> \<open>\<open>nuke.ask(text)\<close>\<close>
  | ScriptSave
  | ConvertToWrite
  | ConvertFromWrite
  | Run "string list"             \<comment> \<open>\<open>subprocess.run(command)\<close>\<close>

record completed_process =
  returncode :: int
  stdout :: string
  stderr :: string

record world =
  env_DEADLINE_PATH :: "string option"
  env_TEMP :: "string option"
  env_OCIO :: "string option"
  platform_system :: string
  files :: "(string \<times> string) list"      \<comment> \<open>regular files: path and content, newest first\<close>
  dirs :: "string list"
  root_name :: string                      \<comment> \<open>\<open>nuke.root().name()\<close>\<close>
  project_name :: "string option"          \<comment> \<open>\<open>ctx.project.get("name")\<close>\<close>
  sgtk_render_path :: "string \<Rightarrow> string \<Rightarrow> error + string"
    \<comment> \<open>what the toolkit makes of a script path and a template name, or how it fails\<close>
  resources_dir :: string
  str_format :: "string \<Rightarrow> (string \<times> string) list \<Rightarrow> error + string"
    \<comment> \<open>\<open>template.format(**kwargs)\<close>; the template file is not part of the sources\<close>
  nuke_version :: "nat \<times> nat"
  uuid_hex :: "nat \<Rightarrow> string"              \<comment> \<open>the identifiers \<open>uuid.uuid4().hex\<close> hands out, in order\<close>
  uuid_count :: nat
  dialog_ok :: bool                        \<comment> \<open>\<open>panel.showModalDialog()\<close>\<close>
  selected_nodes :: "node list"
  all_nodes :: "node list"
  writenode_app :: bool                    \<comment> \<open>is the \<open>tk-nuke-writenode\<close> app there\<close>
  to_node :: "string \<Rightarrow> node option"        \<comment> \<open>\<open>nuke.toNode(name)\<close> after the conversion\<close>
  ask_answer :: "string \<Rightarrow> bool"            \<comment> \<open>the user's answer to \<open>nuke.ask(text)\<close>\<close>
  subprocess_run :: "string list \<Rightarrow> error + completed_process"
  events :: "event list"                   \<comment> \<open>what the user and the host saw, oldest first\<close>

type_synonym 'a prog = "world \<Rightarrow> (error + 'a) \<times> world"

definition ret :: "'a \<Rightarrow> 'a prog" where
  "ret x w = (Inr x, w)"

definition raise :: "error \<Rightarrow> 'a prog" where
  "raise e w = (Inl e, w)"

definition bnd :: "'a prog \<Rightarrow> ('a \<Rightarrow> 'b prog) \<Rightarrow> 'b prog" where
  "bnd m f w = (case m w of (Inl e, w') \<Rightarrow> (Inl e, w') | (Inr x, w') \<Rightarrow> f x w')"

definition lift :: "error + 'a \<Rightarrow> 'a prog" where
  "lift r w = (r, w)"

definition emit :: "event \<Rightarrow> unit prog" where
  "emit e w = (Inr (), w\<lparr>events := events w @ [e]\<rparr>)"

subsection \<open>Files\<close>

text \<open>
  A path exists when it is a regular file or a directory of the world. Opening a file
  for writing fails on a directory, \<open>mkdir\<close> on an existing path, \<open>makedirs\<close> on a
  regular file. Access rights and missing parent directories are not modelled.
\<close>

definition path_exists :: "world \<Rightarrow> string \<Rightarrow> bool" where
  \<comment> \<open>\<open>os.path.exists\<close>\<close>
  "path_exists w p = (p \<in> set (map fst (files w)) \<or> p \<in> set (dirs w))"

definition path_isfile :: "world \<Rightarrow> string \<Rightarrow> bool" where
  "path_isfile w p = (p \<in> set (map fst (files w)))"

definition read_file :: "string \<Rightarrow> string prog" where
  \<comment> \<open>\<open>open(p, "r").read()\<close>\<close>
  "read_file p w =
     (case map_of (files w) p of
        Some content \<Rightarrow> (Inr content, w)
      | None \<Rightarrow> if p \<in> set (dirs w) then (Inl (IsADirectoryError p), w)
                else (Inl (FileNotFoundError p), w))"

definition open_w :: "string \<Rightarrow> unit prog" where
  \<comment> \<open>\<open>open(p, "w")\<close>: the file exists and is empty afterwards\<close>
  "open_w p w =
     (if p \<in> set (dirs w) then (Inl (IsADirectoryError p), w)
      else (Inr (), w\<lparr>files := (p, []) # files w\<rparr>))"

definition write_text :: "string \<Rightarrow> string \<Rightarrow> unit prog" where
  \<comment> \<open>writing to the file opened at \<open>p\<close>\<close>
  "write_text p content w = (Inr (), w\<lparr>files := (p, content) # files w\<rparr>)"

definition ancestors :: "string \<Rightarrow> string list" where
  "ancestors p =
     filter (\<lambda>d. d \<noteq> [])
       (map (\<lambda>i. take i p) (filter (\<lambda>i. p ! i = CHR ''/'') [0..<length p])) @ [p]"

definition mkdir :: "string \<Rightarrow> unit prog" where
  "mkdir p w =
     (if path_exists w p then (Inl (FileExistsError p), w)
      else (Inr (), w\<lparr>dirs := p # dirs w\<rparr>))"

definition makedirs :: "string \<Rightarrow> unit prog" where
  \<comment> \<open>\<open>os.makedirs(p, exist_ok=True)\<close>\<close>
  "makedirs p w =
     (if path_isfile w p then (Inl (FileExistsError p), w)
      else (Inr (), w\<lparr>dirs := ancestors p @ dirs w\<rparr>))"

section \<open>Get methods\<close>

definition get_deadline_command :: "string prog" where
  "get_deadline_command =
     (\<lambda>w. bnd (let deadline_path = (case env_DEADLINE_PATH w of None \<Rightarrow> [] | Some v \<Rightarrow> v)
               in if deadline_path = [] then
                    (let fallback_path = ''/Users/Shared/Thinkbox/DEADLINE_PATH''
                     in if path_exists w fallback_path
                        then bnd (read_file fallback_path) (\<lambda>text. ret (py_strip text))
                        else ret deadline_path)
                  else ret deadline_path)
              (\<lambda>deadline_path. ret (join deadline_path ''deadlinecommand'')) w)"

definition get_ocio_path :: "world \<Rightarrow> string" where
  "get_ocio_path w =
     (let ocio_path = (case env_OCIO w of None \<Rightarrow> [] | Some v \<Rightarrow> v)
      in if ocio_path = [] then []
         else if platform_system w \<noteq> ''Windows''
         then py_replace [CHR 0x5C] ''/'' (py_replace ''/Volumes/production/'' ''P:/'' ocio_path)
         else ocio_path)"

definition get_nuke_script_path :: "string option prog" where
  "get_nuke_script_path =
     (\<lambda>w. let script_path = root_name w
          in (if script_path = [] \<or> script_path = ''Root''
              then bnd (emit (Message ''Please save the Nuke script before submitting to Deadline.''))
                     (\<lambda>_. ret None)
              else bnd (emit ScriptSave) (\<lambda>_. ret (Some script_path))) w)"

definition get_render_template :: "world \<Rightarrow> string \<Rightarrow> string option" where
  \<comment> \<open>the toolkit calls of the \<open>try\<close> body are the host's \<open>sgtk_render_path\<close>\<close>
  "get_render_template w script_path =
     (case sgtk_render_path w script_path ''nuke_shot_render_movie'' of
        Inl e \<Rightarrow> None
      | Inr render_path \<Rightarrow>
          Some (if platform_system w = ''Windows''
                then py_replace [CHR 0x5C] ''/'' render_path else render_path))"

definition get_write_nodes :: "world \<Rightarrow> bool \<Rightarrow> node list option" where
  "get_write_nodes w selected_only =
     (if selected_only \<and> selected_nodes w = [] then None
      else Some (filter (\<lambda>n. node_class n \<in> set [''Write'', ''WriteTank''])
                   (if selected_only then selected_nodes w else all_nodes w)))"

section \<open>Write methods\<close>

abbreviation NL :: string where
  "NL \<equiv> [CHR 0x0A]"

definition job_file_lines ::
  "panel \<Rightarrow> world \<Rightarrow> string \<Rightarrow> node \<Rightarrow> string option \<Rightarrow> string option \<Rightarrow> error + string list"
where
  \<comment> \<open>the list \<open>job_file_lines\<close> of \<open>_write_job_info\<close>, as it stands before the file is opened\<close>
  "job_file_lines self w output_type node output_file script_path =
     (let render_type = (if output_type = ''mov'' then ''Movie'' else ''Rendered Image'')
      in case script_path of
           None \<Rightarrow> Inl TypeError
         | Some sp \<Rightarrow>
             (case get_adjusted_frame_range self of
                Inl e \<Rightarrow> Inl e
              | Inr frames \<Rightarrow>
                  (let ls =
                     [''Plugin=Nuke'' @ NL,
                      ''Name='' @ node_name node @ '' - '' @ render_type @ NL,
                      ''BatchName='' @ basename sp @ NL,
                      ''Frames='' @ frames @ NL,
                      ''ChunkSize='' @ (if output_type \<noteq> ''mov''
                                        then str_int (knob_value (chunk_size self))
                                        else str_int 1000000) @ NL,
                      ''Priority='' @ str_int (knob_value (priority self)) @ NL,
                      ''Pool=none'' @ NL,
                      ''Department='' @ knob_value (department self) @ NL,
                      ''Comment='' @ knob_value (comment self) @ NL,
                      ''EnvironmentKeyValue0=OCIO='' @ get_ocio_path w @ NL,
                      ''OutputDirectory0='' @ dirname (file_knob node) @ NL];
                     ls = (if output_type = ''exr''
                           then ls @ [''OutputDirectory0='' @ dirname (file_knob node) @ NL]
                           else ls)
                   in if output_type = ''mov''
                      then (case output_file of
                              None \<Rightarrow> Inl TypeError
                            | Some out \<Rightarrow> Inr (ls @ [''OutputDirectory1='' @ dirname out @ NL]))
                      else Inr ls)))"

definition write_job_info ::
  "panel \<Rightarrow> string \<Rightarrow> string \<Rightarrow> node \<Rightarrow> string option \<Rightarrow> unit prog"
where
  "write_job_info self job_info_path output_type node output_file =
     bnd get_nuke_script_path (\<lambda>script_path.
     bnd (\<lambda>w. lift (job_file_lines self w output_type node output_file script_path) w) (\<lambda>ls.
     bnd (open_w job_info_path) (\<lambda>_.
     write_text job_info_path (concat ls))))"

definition write_plugin_info :: "string \<Rightarrow> string \<Rightarrow> unit prog" where
  "write_plugin_info plugin_info_path script_path =
     bnd (open_w plugin_info_path) (\<lambda>_. (\<lambda>w.
       write_text plugin_info_path
         (concat [''SceneFile='' @ script_path @ NL,
                  ''Version='' @ str_nat (fst (nuke_version w)) @ ''.''
                     @ str_nat (snd (nuke_version w)) @ NL]) w))"

fun readlines :: "string \<Rightarrow> string list" where
  "readlines [] = []"
| "readlines (c # cs) =
     (if c = CHR 0x0A then [c] # readlines cs
      else (case readlines cs of
              [] \<Rightarrow> [[c]]
            | l # ls \<Rightarrow> (c # l) # ls))"

fun contains :: "string \<Rightarrow> string \<Rightarrow> bool" where
  \<comment> \<open>\<open>needle in line\<close>\<close>
  "contains needle [] = (needle = [])"
| "contains needle (c # cs) = (prefix needle (c # cs) \<or> contains needle cs)"

definition script_content :: "panel \<Rightarrow> string \<Rightarrow> string \<Rightarrow> string \<Rightarrow> string prog" where
  \<comment> \<open>the body of the \<open>try\<close> statement of \<open>_write_script_content\<close>\<close>
  "script_content self read_file_path output_file_path res_dir =
     (let root_fr = knob_value (frame_range self)
      in case split_on (CHR ''-'') root_fr of
           [root_first, root_last] \<Rightarrow>
             bnd (lift (get_adjusted_frame_range self)) (\<lambda>read_fr.
             case split_on (CHR ''-'') read_fr of
               [a, b] \<Rightarrow>
                 bnd (lift (py_int a)) (\<lambda>read_first.
                 bnd (lift (py_int b)) (\<lambda>read_last. (\<lambda>w.
                 (let ocio_path = get_ocio_path w;
                      burn_file = (case project_name w of
                                     None \<Rightarrow> ''burn.nk''
                                   | Some project \<Rightarrow>
                                       if project \<noteq> [] then ''burn_'' @ project @ ''.nk''
                                       else ''burn.nk'');
                      burn_path = join res_dir burn_file;
                      template_path = join res_dir ''nuke_template.txt''
                  in bnd (if knob_value (add_burn self)
                          then bnd (read_file burn_path) (\<lambda>text.
                                 case dropWhile (\<lambda>line. \<not> contains ''push $cut_paste_input'' line)
                                        (readlines text) of
                                   [] \<Rightarrow> raise UnboundLocalError
                                 | line # filtered_lines \<Rightarrow> ret (concat filtered_lines))
                          else ret [])
                       (\<lambda>burn_content.
                     bnd (read_file template_path) (\<lambda>nuke_script_template.
                     lift (str_format w nuke_script_template
                             [(''root_first'', root_first),
                              (''root_last'', root_last),
                              (''read_first'', str_int read_first),
                              (''read_last'', str_int read_last),
                              (''OCIO_PATH'', ocio_path),
                              (''read_file_path'', read_file_path),
                              (''output_file_path'', output_file_path),
                              (''burn_in_file'', py_strip burn_content)])))) w)))
             | _ \<Rightarrow> raise ValueError)
         | _ \<Rightarrow> raise ValueError)"

definition write_script_content ::
  "panel \<Rightarrow> string \<Rightarrow> string \<Rightarrow> string \<Rightarrow> string option prog"
where
  \<comment> \<open>\<open>except Exception\<close>: tell the user and return \<open>None\<close>\<close>
  "write_script_content self read_file_path output_file_path res_dir w =
     (case script_content self read_file_path output_file_path res_dir w of
        (Inr nuke_script_content, w') \<Rightarrow> (Inr (Some nuke_script_content), w')
      | (Inl e, w') \<Rightarrow>
          bnd (emit (ErrorMessage ''Error generating Nuke script: '' e)) (\<lambda>_. ret None) w')"

section \<open>Build methods\<close>

subsection \<open>The name of the temporary script\<close>

definition new_script_name :: "string \<Rightarrow> nat \<Rightarrow> string" where
  \<comment> \<open>\<open>f"{base_name}_tmp_{script_number:02d}.nk"\<close>\<close>
  "new_script_name base_name script_number =
     base_name @ ''_tmp_'' @ fmt_02d script_number @ ''.nk''"

definition digits_value :: "string \<Rightarrow> nat" where
  "digits_value ds = foldl (\<lambda>a c. a * 10 + digit_val c) 0 ds"

text \<open>
  The \<open>while True\<close> loop of \<open>_build_temp_nuke_script\<close> stops because the names of
  different numbers differ and only finitely many paths exist.
\<close>

lemma is_digit_digit_char: "d < 10 \<Longrightarrow> is_digit (digit_char d)"
  unfolding is_digit_def digit_char_def by (rule nth_mem) simp

lemma digit_val_digit_char: "d < 10 \<Longrightarrow> digit_val (digit_char d) = d"
proof -
  assume "d < 10"
  then have "d \<in> {0,1,2,3,4,5,6,7,8,9}" by auto
  then show ?thesis by (auto simp: digit_val_def digit_char_def)
qed

lemma digits_value_str_nat: "digits_value (str_nat n) = n"
  unfolding digits_value_def
proof (induction n rule: str_nat.induct)
  case (1 n)
  show ?case
  proof (cases "n < 10")
    case True
    then show ?thesis by (simp add: str_nat.simps [of n] digit_val_digit_char)
  next
    case False
    with 1 show ?thesis by (simp add: str_nat.simps [of n] digit_val_digit_char)
  qed
qed

lemma foldl_zeros:
  "foldl (\<lambda>a c. a * 10 + digit_val c) 0 (replicate k (CHR ''0'')) = 0"
  by (induction k) (simp_all add: digit_val_def)

lemma digits_value_fmt_02d: "digits_value (fmt_02d n) = n"
  using digits_value_str_nat [of n]
  by (simp add: fmt_02d_def digits_value_def foldl_zeros)

lemma fmt_02d_inj: "fmt_02d m = fmt_02d n \<Longrightarrow> m = n"
  by (metis digits_value_fmt_02d)

lemma new_script_name_inj: "new_script_name b m = new_script_name b n \<Longrightarrow> m = n"
  by (simp add: new_script_name_def fmt_02d_inj)

lemma join_inj: "join d (c # x) = join d (c # y) \<Longrightarrow> x = y"
  by (simp add: join_def split: if_splits)

lemma new_script_path_inj:
  "join d (new_script_name b m) = join d (new_script_name b n) \<Longrightarrow> m = n"
proof -
  assume a: "join d (new_script_name b m) = join d (new_script_name b n)"
  obtain c r where r: "b @ ''_tmp_'' = c # r" by (cases b) auto
  have "new_script_name b m = c # (r @ fmt_02d m @ ''.nk'')"
       "new_script_name b n = c # (r @ fmt_02d n @ ''.nk'')"
    using r by (simp_all add: new_script_name_def flip: append_assoc del: append.simps)
  with a have "r @ fmt_02d m @ ''.nk'' = r @ fmt_02d n @ ''.nk''"
    using join_inj by metis
  then show ?thesis by (simp add: fmt_02d_inj)
qed

lemma finite_taken_numbers:
  "finite {k. path_exists w (join d (new_script_name b k))}"
proof -
  let ?S = "set (map fst (files w)) \<union> set (dirs w)"
  have "{k. path_exists w (join d (new_script_name b k))} = (\<lambda>k. join d (new_script_name b k)) -` ?S"
    by (auto simp: path_exists_def)
  moreover have "inj (\<lambda>k. join d (new_script_name b k))"
    by (rule injI) (rule new_script_path_inj)
  ultimately show ?thesis by (simp add: finite_vimageI)
qed

function find_new_script_path :: "world \<Rightarrow> string \<Rightarrow> string \<Rightarrow> nat \<Rightarrow> string" where
  "find_new_script_path w new_script_dir base_name script_number =
     (let new_script_path = join new_script_dir (new_script_name base_name script_number)
      in if \<not> path_exists w new_script_path then new_script_path
         else find_new_script_path w new_script_dir base_name (script_number + 1))"
  by pat_completeness auto
termination
proof (relation "measure (\<lambda>(w, d, b, n). card {k. n \<le> k \<and> path_exists w (join d (new_script_name b k))})")
  show "wf (measure (\<lambda>(w, d, b, n). card {k. n \<le> k \<and> path_exists w (join d (new_script_name b k))}))"
    by simp
next
  fix w d b n p
  assume "p = join d (new_script_name b n)" and "\<not> \<not> path_exists w p"
  then have ex: "path_exists w (join d (new_script_name b n))" by simp
  let ?A = "{k. n \<le> k \<and> path_exists w (join d (new_script_name b k))}"
  let ?B = "{k. n + 1 \<le> k \<and> path_exists w (join d (new_script_name b k))}"
  have fin: "finite ?A" using finite_taken_numbers [of w d b] by simp
  have "n \<in> ?A" "n \<notin> ?B" "?B \<subseteq> ?A" using ex by auto
  then have "?B \<subset> ?A" by blast
  then have "card ?B < card ?A" using fin by (rule psubset_card_mono [rotated])
  then show "((w, d, b, n + 1), (w, d, b, n))
        \<in> measure (\<lambda>(w, d, b, n). card {k. n \<le> k \<and> path_exists w (join d (new_script_name b k))})"
    by simp
qed

declare find_new_script_path.simps [simp del]

subsection \<open>The temporary review script\<close>

text \<open>
  \<open>re.sub(r"\.\d{4,}\.exr$", "", filename)\<close>. At a position the pattern matches a dot,
  all the digits that follow (at least four), and \<open>.exr\<close> at the end of the string or
  just before a final newline; the text after the match is kept.
\<close>

definition frame_suffix_match :: "string \<Rightarrow> string option" where
  "frame_suffix_match s =
     (case s of
        [] \<Rightarrow> None
      | c # r \<Rightarrow>
          (let t = dropWhile is_digit r
           in if c = CHR ''.'' \<and> 4 \<le> length (takeWhile is_digit r)
                 \<and> (t = ''.exr'' \<or> t = ''.exr'' @ NL)
              then Some (drop 4 t) else None))"

fun re_sub_frame_suffix :: "string \<Rightarrow> string" where
  "re_sub_frame_suffix [] = []"
| "re_sub_frame_suffix (c # cs) =
     (case frame_suffix_match (c # cs) of
        Some rest \<Rightarrow> rest
      | None \<Rightarrow> c # re_sub_frame_suffix cs)"

definition get_resources_dir :: "world \<Rightarrow> string" where
  "get_resources_dir w = resources_dir w"

definition build_temp_nuke_script :: "panel \<Rightarrow> node \<Rightarrow> (string \<times> string) prog" where
  "build_temp_nuke_script self node =
     (let read_file_path = file_knob node
      in bnd get_nuke_script_path (\<lambda>current.
         case current of
           None \<Rightarrow> raise TypeError
         | Some current_script_path \<Rightarrow>
            (let script_dir = dirname current_script_path;
                 base_name = stem current_script_path;
                 new_script_dir = join script_dir ''tmp''
             in bnd (\<lambda>w. (if \<not> path_exists w new_script_dir then mkdir new_script_dir
                           else ret ()) w) (\<lambda>_.
                bnd (\<lambda>w. ret (find_new_script_path w new_script_dir base_name 1) w)
                  (\<lambda>new_script_path.
                (let read_file_path = py_replace [CHR 0x5C] ''/'' read_file_path
                 in bnd (\<lambda>w. ret (get_render_template w current_script_path) w) (\<lambda>render_path.
                    bnd (if render_path = None \<or> render_path = Some []
                         then (let original_path = file_knob node;
                                   original_dir = dirname original_path;
                                   review_dir = join original_dir ''review''
                               in bnd (makedirs review_dir) (\<lambda>_.
                                  (let filename = basename original_path;
                                       filename = re_sub_frame_suffix filename
                                   in ret (join review_dir (filename @ ''.mov'')))))
                         else ret (the render_path)) (\<lambda>render_path.
                    bnd (if render_path \<noteq> []
                         then (let render_dir = dirname render_path
                               in bnd (makedirs render_dir) (\<lambda>_.
                                  ret (py_replace [CHR 0x5C] ''/'' render_path)))
                         else if read_file_path \<noteq> []
                         then (let output_dir = dirname read_file_path
                               in ret (py_replace [CHR 0x5C] ''/'' (join output_dir ''output.mov'')))
                         else ret ''/tmp/output.exr'') (\<lambda>output_file_path.
                    bnd (\<lambda>w. write_script_content self read_file_path output_file_path
                                (get_resources_dir w) w) (\<lambda>nuke_script_content.
                    bnd (open_w new_script_path) (\<lambda>_.
                    bnd (case nuke_script_content of
                           None \<Rightarrow> raise TypeError
                         | Some text \<Rightarrow> write_text new_script_path text) (\<lambda>_.
                    ret (new_script_path, output_file_path)))))))))))))"

subsection \<open>Descriptor files and the command\<close>

definition fresh_uuid :: "string prog" where
  \<comment> \<open>\<open>uuid.uuid4().hex\<close>\<close>
  "fresh_uuid w = (Inr (uuid_hex w (uuid_count w)), w\<lparr>uuid_count := Suc (uuid_count w)\<rparr>)"

definition build_submission_files ::
  "panel \<Rightarrow> string \<Rightarrow> node \<Rightarrow> string option \<Rightarrow> string option \<Rightarrow> (string \<times> string) option prog"
where
  "build_submission_files self output_type node script_path output_file =
     (if output_type = [] then raise ValueError
      else bnd (if script_path \<noteq> None \<and> script_path \<noteq> Some [] then ret script_path
                else get_nuke_script_path) (\<lambda>script_path.
           if script_path = None \<or> script_path = Some [] then ret None
           else (\<lambda>w.
             (let temp_dir = (case env_TEMP w of None \<Rightarrow> ''/tmp'' | Some v \<Rightarrow> v)
              in bnd fresh_uuid (\<lambda>unique_id.
                 (let job_info_path =
                        join temp_dir (output_type @ ''_nuke_deadline_job_'' @ unique_id @ ''.txt'');
                      plugin_info_path =
                        join temp_dir (output_type @ ''_nuke_deadline_plugin_'' @ unique_id @ ''.txt'')
                  in bnd (write_job_info self job_info_path output_type node output_file) (\<lambda>_.
                     bnd (write_plugin_info plugin_info_path (the script_path)) (\<lambda>_.
                     ret (Some (job_info_path, plugin_info_path))))))) w)))"

definition get_submission_files ::
  "panel \<Rightarrow> node \<Rightarrow> (string \<times> string) option list prog"
where
  "get_submission_files self node =
     bnd (build_submission_files self ''exr'' node None None) (\<lambda>exr.
     (let submission_files = [exr]
      in if knob_value (render_review self)
         then bnd (build_temp_nuke_script self node) (\<lambda>(script_path, output_file).
              bnd (build_submission_files self ''mov'' node (Some script_path) (Some output_file))
                (\<lambda>mov. ret (submission_files @ [mov])))
         else ret submission_files))"

fun build_submission_command ::
  "string list \<Rightarrow> (string \<times> string) option list \<Rightarrow> error + string list"
where
  "build_submission_command command [] = Inr command"
| "build_submission_command command (None # submission_files) = Inl TypeError"
| "build_submission_command command (Some (job_info, plugin_info) # submission_files) =
     build_submission_command (command @ [''-job'', job_info, plugin_info]) submission_files"

section \<open>Utility methods\<close>

definition dir_has_file :: "world \<Rightarrow> string \<Rightarrow> bool" where
  \<comment> \<open>\<open>any(os.path.isfile(os.path.join(output_dir, f)) for f in os.listdir(output_dir))\<close>\<close>
  "dir_has_file w output_dir =
     list_ex (\<lambda>p. basename p \<noteq> [] \<and> join output_dir (basename p) = p) (map fst (files w))"

definition check_write_has_files :: "node \<Rightarrow> bool option prog" where
  \<comment> \<open>\<open>None\<close> is the function falling off its end\<close>
  "check_write_has_files write_node =
     (let file_path = (case cached_path write_node of
                         Some v \<Rightarrow> v
                       | None \<Rightarrow> file_knob write_node);
          output_dir = dirname file_path
      in (\<lambda>w. (if \<not> path_exists w output_dir then ret (Some True)
                else if path_isfile w output_dir then raise (NotADirectoryError output_dir)
                else if dir_has_file w output_dir then
                  (let question = ''Files found in directory:'' @ NL @ output_dir @ NL
                                    @ ''Do you want to proceed?''
                   in bnd (emit (Ask question)) (\<lambda>_. ret (Some (ask_answer w question))))
                else ret None) w))"

definition convert_write_nodes :: "node list \<Rightarrow> string \<Rightarrow> node list prog" where
  "convert_write_nodes nodes direction =
     (\<lambda>w. (if \<not> writenode_app w then ret nodes
           else if direction \<notin> set [''to'', ''from''] then raise ValueError
           else if direction = ''from'' then bnd (emit ConvertFromWrite) (\<lambda>_. ret nodes)
           else (let write_tank_nodes = filter (\<lambda>n. node_class n = ''WriteTank'') nodes
                 in if write_tank_nodes = [] then ret nodes
                    else (let write_tank_names = map node_name write_tank_nodes;
                              updated_nodes = foldl (\<lambda>ns n. remove1 n ns) nodes write_tank_nodes
                          in bnd (emit ConvertToWrite) (\<lambda>_.
                             ret (updated_nodes @ List.map_filter (to_node w) write_tank_names))))) w)"

section \<open>Execute methods\<close>

definition handle_submission_result :: "completed_process \<Rightarrow> unit prog" where
  "handle_submission_result result =
     (if returncode result \<noteq> 0
      then emit (Message (''Failed to submit to Deadline!'' @ NL @ stderr result))
      else emit (Message (''Successfully submitted to Deadline!'' @ NL @ stdout result)))"

definition execute_command :: "(string \<times> string) option list \<Rightarrow> unit prog" where
  "execute_command submission_files =
     bnd get_deadline_command (\<lambda>deadline_command.
     bnd (lift (build_submission_command [deadline_command, ''-Multi'', ''-dependent'']
                  submission_files)) (\<lambda>command.
     bnd (emit (Run command)) (\<lambda>_.
     bnd (\<lambda>w. lift (subprocess_run w command) w) (\<lambda>result.
     handle_submission_result result))))"

section \<open>The exposed method\<close>

fun any_check_write_has_files :: "node list \<Rightarrow> bool prog" where
  \<comment> \<open>\<open>any(... for node in write_nodes)\<close>: stops at the first true result\<close>
  "any_check_write_has_files [] = ret False"
| "any_check_write_has_files (node # write_nodes) =
     bnd (check_write_has_files node) (\<lambda>r.
     if r = Some True then ret True else any_check_write_has_files write_nodes)"

fun submit_write_nodes :: "panel \<Rightarrow> node list \<Rightarrow> unit prog" where
  \<comment> \<open>the \<open>for write_node in write_nodes\<close> loop of \<open>show\<close>\<close>
  "submit_write_nodes panel [] = ret ()"
| "submit_write_nodes panel (write_node # write_nodes) =
     bnd (get_submission_files panel write_node) (\<lambda>submission_files.
     bnd (execute_command submission_files) (\<lambda>_.
     submit_write_nodes panel write_nodes))"

definition show_panel :: "panel \<Rightarrow> bool \<Rightarrow> unit prog" where
  \<comment> \<open>\<open>show(send_selected)\<close>; \<open>panel\<close> is the form as the user left it\<close>
  "show_panel panel send_selected =
     (\<lambda>w. (if \<not> dialog_ok w then ret ()
           else (let write_nodes = get_write_nodes w send_selected
                 in if write_nodes = None \<or> write_nodes = Some []
                    then emit (Message
                      ''No valid Write nodes selected. Please select at least one Write or WriteTank node.'')
                    else bnd (any_check_write_has_files (the write_nodes)) (\<lambda>proceed.
                         if \<not> proceed then ret ()
                         else bnd (convert_write_nodes (the write_nodes) ''to'') (\<lambda>write_nodes.
                              bnd (submit_write_nodes panel write_nodes) (\<lambda>_.
                              bnd (convert_write_nodes write_nodes ''from'') (\<lambda>_. ret ())))))) w)"

section \<open>A sample session\<close>

text \<open>
  One saved script, two write nodes whose output directories hold rendered frames, no
  farm installation on this machine, and a farm tool that refuses every job. The user
  answers no for the first directory and yes for the second.
\<close>

definition example_panel :: panel where
  "example_panel =
     \<lparr>frame_range = Knob ''1001-1050'', department = Knob ''comp'', comment = Knob ''v1'',
      chunk_size = Knob 10, priority = Knob 33, render_review = Knob False,
      add_slate = Knob False, add_burn = Knob False\<rparr>"

definition example_node :: "string \<Rightarrow> string \<Rightarrow> node" where
  "example_node name path =
     \<lparr>node_name = name, node_class = ''Write'', file_knob = path, cached_path = None\<rparr>"

definition example_world :: world where
  "example_world =
     \<lparr>env_DEADLINE_PATH = None, env_TEMP = None,
      env_OCIO = Some (''/Volumes/production/ocio'' @ [CHR 0x5C] @ ''config.ocio''),
      platform_system = ''Darwin'',
      files = [(''/proj/comp/shot010_v001.nk'', ''''),
               (''/renders/a/shot010.1001.exr'', ''''),
               (''/renders/b/shot020.1001.exr'', '''')],
      dirs = [''/proj/comp'', ''/res'', ''/renders/a'', ''/renders/b'', ''/tmp''],
      root_name = ''/proj/comp/shot010_v001.nk'', project_name = None,
      sgtk_render_path = (\<lambda>script_path template_name. Inl ValueError),
      resources_dir = ''/res'',
      str_format = (\<lambda>template kwargs. Inr template),
      nuke_version = (15, 1),
      uuid_hex = (\<lambda>n. ''u'' @ str_nat n), uuid_count = 0, dialog_ok = True,
      selected_nodes = [example_node ''Write1'' ''/renders/a/shot010.1001.exr'',
                        example_node ''Write2'' ''/renders/b/shot020.1001.exr''],
      all_nodes = [example_node ''Write1'' ''/renders/a/shot010.1001.exr'',
                   example_node ''Write2'' ''/renders/b/shot020.1001.exr''],
      writenode_app = False, to_node = (\<lambda>name. None),
      ask_answer = (\<lambda>question. question =
         ''Files found in directory:'' @ NL @ ''/renders/b'' @ NL @ ''Do you want to proceed?''),
      subprocess_run = (\<lambda>command. Inr \<lparr>returncode = 1, stdout = ''queued'', stderr = ''refused''\<rparr>),
      events = []\<rparr>"

text \<open>
  Two variations of the session. In \<open>review_world\<close> the script template is installed
  and one temporary script is left from an earlier build. The template has no
  replacement field, so formatting returns it as it is. In \<open>crowded_world\<close>
  ninety-nine temporary scripts are left.
\<close>

definition review_world :: world where
  "review_world =
     example_world
       \<lparr>files := (''/res/nuke_template.txt'', ''Root'')
                 # (''/proj/comp/tmp/shot010_v001_tmp_01.nk'', ''Root'')
                 # files example_world,
        dirs := ''/proj/comp/tmp'' # dirs example_world\<rparr>"


section \<open>The colour-management path, in the words of the specification\<close>

text \<open>
  One pass over the input: every occurrence of \<open>/Volumes/production/\<close> becomes \<open>P:/\<close>
  and every backslash becomes a forward slash.
\<close>

fun ocio_translate :: "string \<Rightarrow> string" where
  "ocio_translate [] = []"
| "ocio_translate (c # cs) =
     (if prefix ''/Volumes/production/'' (c # cs) then ''P:/'' @ ocio_translate (drop 19 cs)
      else (if c = CHR 0x5C then CHR ''/'' else c) # ocio_translate cs)"

section \<open>Properties\<close>

subsection \<open>Decimal text\<close>

lemma str_nat_digits: "\<forall>c \<in> set (str_nat n). is_digit c"
proof (induction n rule: str_nat.induct)
  case (1 n)
  show ?case
  proof (cases "n < 10")
    case True
    then show ?thesis by (simp add: str_nat.simps [of n] is_digit_digit_char)
  next
    case False
    with 1 show ?thesis by (simp add: str_nat.simps [of n] is_digit_digit_char)
  qed
qed

lemma str_nat_nonempty: "str_nat n \<noteq> []"
  by (subst str_nat.simps) simp

lemma parse_rest_digits:
  "\<forall>c \<in> set ds. is_digit c \<Longrightarrow> parse_rest acc ds = Some (foldl (\<lambda>a c. a * 10 + digit_val c) acc ds)"
  by (induction ds arbitrary: acc) auto

lemma foldl_str_nat: "foldl (\<lambda>a c. a * 10 + digit_val c) 0 (str_nat n) = n"
proof (induction n rule: str_nat.induct)
  case (1 n)
  show ?case
  proof (cases "n < 10")
    case True
    then show ?thesis by (simp add: str_nat.simps [of n] digit_val_digit_char)
  next
    case False
    with 1 show ?thesis by (simp add: str_nat.simps [of n] digit_val_digit_char)
  qed
qed

lemma parse_digits_str_nat: "parse_digits (str_nat n) = Some n"
proof -
  obtain c cs where s: "str_nat n = c # cs"
    using str_nat_nonempty [of n] by (cases "str_nat n") auto
  have d: "\<forall>x \<in> set (c # cs). is_digit x" using str_nat_digits [of n] s by simp
  have "parse_digits (c # cs) = parse_rest 0 (c # cs)"
    using d by (simp add: parse_digits_def)
  also have "\<dots> = Some (foldl (\<lambda>a c. a * 10 + digit_val c) 0 (c # cs))"
    using d by (rule parse_rest_digits)
  finally show ?thesis using foldl_str_nat [of n] s by simp
qed

lemma digit_not_space: "is_digit c \<Longrightarrow> \<not> py_isspace c"
  by (auto simp: is_digit_def py_isspace_def)

lemma digit_not_sign: "is_digit c \<Longrightarrow> c \<noteq> CHR ''-'' \<and> c \<noteq> CHR ''+''"
  by (auto simp: is_digit_def)

lemma py_strip_str_nat: "py_strip (str_nat n) = str_nat n"
proof -
  have ne: "str_nat n \<noteq> []" by (rule str_nat_nonempty)
  have d: "\<forall>x \<in> set (str_nat n). is_digit x" by (rule str_nat_digits)
  have h: "\<not> py_isspace (hd (str_nat n))" using ne d by (simp add: digit_not_space)
  have l: "\<not> py_isspace (hd (rev (str_nat n)))"
    using ne d by (simp add: hd_rev digit_not_space)
  have 1: "dropWhile py_isspace (str_nat n) = str_nat n"
    using ne h by (cases "str_nat n") auto
  have 2: "dropWhile py_isspace (rev (str_nat n)) = rev (str_nat n)"
    using ne l by (cases "rev (str_nat n)") auto
  show ?thesis by (simp add: py_strip_def 1 2)
qed

lemma py_int_str_nat: "py_int (str_nat n) = Inr (int n)"
proof -
  obtain c cs where s: "str_nat n = c # cs"
    using str_nat_nonempty [of n] by (cases "str_nat n") auto
  have "is_digit c" using str_nat_digits [of n] s by simp
  then have c: "c \<noteq> CHR ''-''" "c \<noteq> CHR ''+''" using digit_not_sign by auto
  have st: "py_strip (c # cs) = c # cs" using py_strip_str_nat [of n] s by simp
  have pd: "parse_digits (c # cs) = Some n" using parse_digits_str_nat [of n] s by simp
  have "py_int (c # cs) = Inr (int n)"
    using c by (simp add: py_int_def st pd)
  then show ?thesis using s by simp
qed

subsection \<open>The adjusted frame range\<close>

text \<open>
  For a range written as two decimal numbers the start frame is lowered by one whatever
  the form holds.
\<close>

lemma split_on_no_sep: "sep \<notin> set w \<Longrightarrow> split_on sep w = [w]"
  by (induction w) auto

lemma split_on_one_sep:
  "sep \<notin> set u \<Longrightarrow> sep \<notin> set v \<Longrightarrow> split_on sep (u @ sep # v) = [u, v]"
  by (induction u) (auto simp: split_on_no_sep)

lemma split_frame_range:
  "split_on (CHR ''-'') (str_nat a @ ''-'' @ str_nat b) = [str_nat a, str_nat b]"
proof -
  have "CHR ''-'' \<notin> set (str_nat a)" "CHR ''-'' \<notin> set (str_nat b)"
    using str_nat_digits digit_not_sign by blast+
  then show ?thesis using split_on_one_sep by simp
qed

lemma get_adjusted_frame_range_shifts:
  "get_adjusted_frame_range (self\<lparr>frame_range := Knob (str_nat a @ ''-'' @ str_nat b)\<rparr>)
     = Inr (str_int (int a - 1) @ ''-'' @ str_nat b)"
  by (simp add: get_adjusted_frame_range_def split_frame_range py_int_str_nat truthy_def str_int_def del: append.simps)

lemma example_frames: "get_adjusted_frame_range example_panel = Inr ''1000-1050''"
  unfolding example_panel_def by code_simp

text \<open>
  C1. With the slate option disabled the range \<open>1001-1050\<close> should come back unchanged.
  The method tests the knob object instead of its value, so the start frame is lowered
  all the same: the result is \<open>1000-1050\<close>.
\<close>

theorem get_adjusted_frame_range_slate_disabled:
  "knob_value (add_slate example_panel) = False
   \<and> knob_value (frame_range example_panel) = ''1001-1050''
   \<and> get_adjusted_frame_range example_panel = Inr ''1000-1050''"
  using example_frames by (simp add: example_panel_def)

subsection \<open>The colour-management path\<close>

lemma replace_ne_single:
  "replace_ne [a] [b] s = map (\<lambda>c. if c = a then b else c) s"
  by (induction s) auto

lemma replace_ne_hit:
  "old \<noteq> [] \<Longrightarrow> prefix old (c # cs) \<Longrightarrow>
   replace_ne old new (c # cs) = new @ replace_ne old new (drop (length old - 1) cs)"
  by simp

lemma replace_ne_miss:
  "\<not> prefix old (c # cs) \<Longrightarrow> replace_ne old new (c # cs) = c # replace_ne old new cs"
  by simp

lemma ocio_translate_hit:
  "prefix ''/Volumes/production/'' (c # cs) \<Longrightarrow>
   ocio_translate (c # cs) = ''P:/'' @ ocio_translate (drop 19 cs)"
  by (simp only: ocio_translate.simps if_True)

lemma ocio_translate_miss:
  "\<not> prefix ''/Volumes/production/'' (c # cs) \<Longrightarrow>
   ocio_translate (c # cs) = (if c = CHR 0x5C then CHR ''/'' else c) # ocio_translate cs"
  by (simp only: ocio_translate.simps if_False)

lemma ocio_replace_translate:
  "map (\<lambda>c. if c = CHR 0x5C then CHR ''/'' else c)
     (replace_ne ''/Volumes/production/'' ''P:/'' s) = ocio_translate s"
proof (induction s rule: ocio_translate.induct)
  case 1
  show ?case by simp
next
  case (2 c cs)
  let ?f = "\<lambda>c. if c = CHR 0x5C then CHR ''/'' else c"
  have len: "length ''/Volumes/production/'' - 1 = 19" by simp
  have new: "map ?f ''P:/'' = ''P:/''" by simp
  have ne: "''/Volumes/production/'' \<noteq> []" by simp
  show ?case
  proof (cases "prefix ''/Volumes/production/'' (c # cs)")
    case True
    have "map ?f (replace_ne ''/Volumes/production/'' ''P:/'' (c # cs))
          = map ?f (''P:/'' @ replace_ne ''/Volumes/production/'' ''P:/'' (drop 19 cs))"
      using replace_ne_hit [OF ne True, of "''P:/''"] by (simp only: len)
    also have "\<dots> = ''P:/'' @ map ?f (replace_ne ''/Volumes/production/'' ''P:/'' (drop 19 cs))"
      by (simp only: map_append new)
    also have "\<dots> = ''P:/'' @ ocio_translate (drop 19 cs)"
      using "2.IH"(1) [OF True] by (simp only:)
    also have "\<dots> = ocio_translate (c # cs)"
      using ocio_translate_hit [OF True] by (simp only:)
    finally show ?thesis .
  next
    case False
    have "map ?f (replace_ne ''/Volumes/production/'' ''P:/'' (c # cs))
          = ?f c # map ?f (replace_ne ''/Volumes/production/'' ''P:/'' cs)"
      using replace_ne_miss [OF False, of "''P:/''"] by (simp only: list.map)
    also have "\<dots> = ?f c # ocio_translate cs"
      using "2.IH"(2) [OF False] by (simp only:)
    also have "\<dots> = ocio_translate (c # cs)"
      using ocio_translate_miss [OF False] by (simp only:)
    finally show ?thesis .
  qed
qed

text \<open>
  C7. Off Windows, the resolved path is the value of \<open>OCIO\<close> with every
  \<open>/Volumes/production/\<close> replaced by \<open>P:/\<close> and every backslash by a forward slash.
  With \<open>OCIO\<close> unset or empty the resolved path is empty.
\<close>

theorem get_ocio_path_translates:
  "(env_OCIO w = None \<or> env_OCIO w = Some [] \<longrightarrow> get_ocio_path w = [])
   \<and> (platform_system w \<noteq> ''Windows'' \<longrightarrow>
        (\<forall>v. env_OCIO w = Some v \<longrightarrow> get_ocio_path w = ocio_translate v))"
  by (auto simp: get_ocio_path_def py_replace_def replace_ne_single ocio_replace_translate)

theorem get_ocio_path_translates_witness:
  "platform_system example_world \<noteq> ''Windows''
   \<and> env_OCIO example_world = Some (''/Volumes/production/ocio'' @ [CHR 0x5C] @ ''config.ocio'')
   \<and> get_ocio_path example_world = ''P:/ocio/config.ocio''
   \<and> env_OCIO (example_world\<lparr>env_OCIO := None\<rparr>) = None
   \<and> get_ocio_path (example_world\<lparr>env_OCIO := None\<rparr>) = []"
proof -
  have a: "platform_system example_world \<noteq> ''Windows''"
    by (simp add: example_world_def)
  have b: "env_OCIO example_world = Some (''/Volumes/production/ocio'' @ [CHR 0x5C] @ ''config.ocio'')"
    by (simp add: example_world_def)
  have c: "ocio_translate (''/Volumes/production/ocio'' @ [CHR 0x5C] @ ''config.ocio'') = ''P:/ocio/config.ocio''"
    by code_simp
  have d: "env_OCIO (example_world\<lparr>env_OCIO := None\<rparr>) = None" by simp
  show ?thesis
    using get_ocio_path_translates [of example_world]
          get_ocio_path_translates [of "example_world\<lparr>env_OCIO := None\<rparr>"] a b c d
    by simp
qed

subsection \<open>The farm command\<close>

text \<open>
  C10. With \<open>DEADLINE_PATH\<close> unset and no fallback configuration file, the command is
  the bare name \<open>deadlinecommand\<close>, joined onto an empty root. Nothing is raised and
  the user is told nothing.
\<close>

theorem get_deadline_command_bare:
  assumes "env_DEADLINE_PATH w = None"
      and "\<not> path_exists w ''/Users/Shared/Thinkbox/DEADLINE_PATH''"
  shows "get_deadline_command w = (Inr ''deadlinecommand'', w)
         \<and> join [] ''deadlinecommand'' = ''deadlinecommand''"
  using assms by (simp add: get_deadline_command_def bnd_def ret_def join_def)

theorem get_deadline_command_bare_witness:
  "env_DEADLINE_PATH example_world = None
   \<and> \<not> path_exists example_world ''/Users/Shared/Thinkbox/DEADLINE_PATH''
   \<and> get_deadline_command example_world = (Inr ''deadlinecommand'', example_world)"
proof -
  have a: "env_DEADLINE_PATH example_world = None" by (simp add: example_world_def)
  have b: "\<not> path_exists example_world ''/Users/Shared/Thinkbox/DEADLINE_PATH''"
    by (simp add: example_world_def path_exists_def)
  show ?thesis using get_deadline_command_bare [OF a b] a b by simp
qed

subsection \<open>The job descriptor\<close>


text \<open>
  \<open>job_head\<close> names the eleven lines every job descriptor starts with, so that the
  list of \<open>job_file_lines\<close> can be taken apart line by line (\<open>job_file_lines_unfold\<close>).
\<close>

definition job_head ::
  "panel \<Rightarrow> world \<Rightarrow> string \<Rightarrow> node \<Rightarrow> string \<Rightarrow> string \<Rightarrow> string list" where
  "job_head self w output_type node sp frames =
     [''Plugin=Nuke'' @ NL,
      ''Name='' @ node_name node @ '' - ''
         @ (if output_type = ''mov'' then ''Movie'' else ''Rendered Image'') @ NL,
      ''BatchName='' @ basename sp @ NL,
      ''Frames='' @ frames @ NL,
      ''ChunkSize='' @ (if output_type \<noteq> ''mov''
                        then str_int (knob_value (chunk_size self))
                        else str_int 1000000) @ NL,
      ''Priority='' @ str_int (knob_value (priority self)) @ NL,
      ''Pool=none'' @ NL,
      ''Department='' @ knob_value (department self) @ NL,
      ''Comment='' @ knob_value (comment self) @ NL,
      ''EnvironmentKeyValue0=OCIO='' @ get_ocio_path w @ NL,
      ''OutputDirectory0='' @ dirname (file_knob node) @ NL]"

lemma job_file_lines_unfold:
  assumes "script_path = Some sp" "get_adjusted_frame_range self = Inr frames"
  shows "job_file_lines self w output_type node output_file script_path =
     (if output_type = ''mov''
      then (case output_file of
              None \<Rightarrow> Inl TypeError
            | Some out \<Rightarrow> Inr (job_head self w output_type node sp frames
                               @ [''OutputDirectory1='' @ dirname out @ NL]))
      else Inr (job_head self w output_type node sp frames
                @ (if output_type = ''exr''
                   then [''OutputDirectory0='' @ dirname (file_knob node) @ NL] else [])))"
proof (cases "output_type = ''mov''")
  case True
  have ne: "(''mov'' = ''exr'') = False" by simp
  show ?thesis
    unfolding job_file_lines_def job_head_def Let_def
    by (simp only: assms True ne option.case sum.case if_True if_False simp_thms)
next
  case False
  show ?thesis
  proof (cases "output_type = ''exr''")
    case True
    have ne: "(''exr'' = ''mov'') = False" by simp
    show ?thesis
      unfolding job_file_lines_def job_head_def Let_def
      by (simp only: assms True ne option.case sum.case if_True if_False simp_thms)
  next
    case ne: False
    show ?thesis
      unfolding job_file_lines_def job_head_def Let_def
      by (simp only: assms ne False option.case sum.case if_True if_False simp_thms append_Nil2)
  qed
qed








lemma get_nuke_script_path_saved:
  "root_name w \<noteq> [] \<Longrightarrow> root_name w \<noteq> ''Root'' \<Longrightarrow>
   get_nuke_script_path w = (Inr (Some (root_name w)), w\<lparr>events := events w @ [ScriptSave]\<rparr>)"
  by (simp add: get_nuke_script_path_def Let_def bnd_def emit_def ret_def)

lemma write_job_info_saved:
  assumes "root_name w \<noteq> []" "root_name w \<noteq> ''Root''"
      and "job_file_lines self (w\<lparr>events := events w @ [ScriptSave]\<rparr>) output_type node
             output_file (Some (root_name w)) = Inr ls"
      and "job_info_path \<notin> set (dirs w)"
  shows "write_job_info self job_info_path output_type node output_file w =
           (Inr (), w\<lparr>events := events w @ [ScriptSave],
                       files := (job_info_path, concat ls) # (job_info_path, []) # files w\<rparr>)"
  using assms
  by (simp add: write_job_info_def bnd_def lift_def open_w_def write_text_def
                get_nuke_script_path_saved)

lemma example_ocio: "get_ocio_path (example_world\<lparr>events := evs\<rparr>) = ''P:/ocio/config.ocio''"
  unfolding example_world_def by code_simp

lemma example_job_head:
  "job_head example_panel (example_world\<lparr>events := evs\<rparr>) ''exr''
     (example_node ''Write1'' ''/renders/a/shot010.1001.exr'')
     ''/proj/comp/shot010_v001.nk'' ''1000-1050'' =
   [''Plugin=Nuke'' @ NL,
    ''Name=Write1 - Rendered Image'' @ NL,
    ''BatchName=shot010_v001.nk'' @ NL,
    ''Frames=1000-1050'' @ NL,
    ''ChunkSize=10'' @ NL,
    ''Priority=33'' @ NL,
    ''Pool=none'' @ NL,
    ''Department=comp'' @ NL,
    ''Comment=v1'' @ NL,
    ''EnvironmentKeyValue0=OCIO=P:/ocio/config.ocio'' @ NL,
    ''OutputDirectory0=/renders/a'' @ NL]"
proof -
  have a: "basename ''/proj/comp/shot010_v001.nk'' = ''shot010_v001.nk''" by code_simp
  have b: "dirname ''/renders/a/shot010.1001.exr'' = ''/renders/a''" by code_simp
  have c: "str_int 10 = ''10''" "str_int 33 = ''33''" by code_simp+
  show ?thesis
    unfolding job_head_def
    by (simp add: example_ocio a b c example_panel_def example_node_def)
qed

text \<open>
  C9. An image-sequence job should carry one output-directory entry. The descriptor
  written for \<open>exr\<close> carries the line \<open>OutputDirectory0\<close> twice: once from the list
  every job starts with and once more from the \<open>exr\<close> branch.
\<close>

theorem write_job_info_exr_output_directory_twice:
  "write_job_info example_panel ''/tmp/job.txt'' ''exr''
     (example_node ''Write1'' ''/renders/a/shot010.1001.exr'') None example_world =
   (Inr (),
    example_world
      \<lparr>events := [ScriptSave],
       files := (''/tmp/job.txt'',
                 concat [''Plugin=Nuke'' @ NL,
                         ''Name=Write1 - Rendered Image'' @ NL,
                         ''BatchName=shot010_v001.nk'' @ NL,
                         ''Frames=1000-1050'' @ NL,
                         ''ChunkSize=10'' @ NL,
                         ''Priority=33'' @ NL,
                         ''Pool=none'' @ NL,
                         ''Department=comp'' @ NL,
                         ''Comment=v1'' @ NL,
                         ''EnvironmentKeyValue0=OCIO=P:/ocio/config.ocio'' @ NL,
                         ''OutputDirectory0=/renders/a'' @ NL,
                         ''OutputDirectory0=/renders/a'' @ NL])
                # (''/tmp/job.txt'', []) # files example_world\<rparr>)"
proof -
  let ?n = "example_node ''Write1'' ''/renders/a/shot010.1001.exr''"
  have r: "root_name example_world = ''/proj/comp/shot010_v001.nk''"
    "events example_world = []" "''/tmp/job.txt'' \<notin> set (dirs example_world)"
    by (simp_all add: example_world_def)
  have ne: "root_name example_world \<noteq> []" "root_name example_world \<noteq> ''Root''"
    by (simp_all add: r)
  have d: "dirname (file_knob ?n) = ''/renders/a''"
    unfolding example_node_def by code_simp
  have l: "job_file_lines example_panel (example_world\<lparr>events := events example_world @ [ScriptSave]\<rparr>)
             ''exr'' ?n None (Some (root_name example_world)) =
           Inr (job_head example_panel (example_world\<lparr>events := events example_world @ [ScriptSave]\<rparr>)
                  ''exr'' ?n ''/proj/comp/shot010_v001.nk'' ''1000-1050''
                @ [''OutputDirectory0=/renders/a'' @ NL])"
    using job_file_lines_unfold [OF refl example_frames, of _ "''exr''" ?n None "''/proj/comp/shot010_v001.nk''"]
    by (simp add: r d del: append.simps)
  show ?thesis
    using write_job_info_saved [OF ne l r(3)]
    by (simp add: example_job_head r)
qed




subsection \<open>Running the farm tool\<close>










lemma example_batch_events:
  "events (snd (submit_write_nodes example_panel
        [example_node ''Write1'' ''/renders/a/shot010.1001.exr'',
         example_node ''Write2'' ''/renders/b/shot020.1001.exr''] example_world)) =
   [ScriptSave, ScriptSave,
    Run [''deadlinecommand'', ''-Multi'', ''-dependent'', ''-job'',
         ''/tmp/exr_nuke_deadline_job_u0.txt'', ''/tmp/exr_nuke_deadline_plugin_u0.txt''],
    Message (''Failed to submit to Deadline!'' @ NL @ ''refused''),
    ScriptSave, ScriptSave,
    Run [''deadlinecommand'', ''-Multi'', ''-dependent'', ''-job'',
         ''/tmp/exr_nuke_deadline_job_u1.txt'', ''/tmp/exr_nuke_deadline_plugin_u1.txt''],
    Message (''Failed to submit to Deadline!'' @ NL @ ''refused'')]"
  unfolding example_world_def example_panel_def example_node_def by code_simp

subsection \<open>The overwrite question\<close>

text \<open>
  C4. Both output directories of the sample session hold files. The user answers no
  for the directory of \<open>Write1\<close> and yes for that of \<open>Write2\<close>. The answers are
  combined with \<open>any\<close>, so one yes lets the whole batch through: the job of
  \<open>Write1\<close> is written and submitted although the user refused it.
\<close>

theorem show_panel_submits_refused_node:
  "\<not> ask_answer example_world
       (''Files found in directory:'' @ NL @ ''/renders/a'' @ NL @ ''Do you want to proceed?'')
   \<and> events (snd (show_panel example_panel True example_world)) =
     [Ask (''Files found in directory:'' @ NL @ ''/renders/a'' @ NL @ ''Do you want to proceed?''),
      Ask (''Files found in directory:'' @ NL @ ''/renders/b'' @ NL @ ''Do you want to proceed?''),
      ScriptSave, ScriptSave,
      Run [''deadlinecommand'', ''-Multi'', ''-dependent'', ''-job'',
           ''/tmp/exr_nuke_deadline_job_u0.txt'', ''/tmp/exr_nuke_deadline_plugin_u0.txt''],
      Message (''Failed to submit to Deadline!'' @ NL @ ''refused''),
      ScriptSave, ScriptSave,
      Run [''deadlinecommand'', ''-Multi'', ''-dependent'', ''-job'',
           ''/tmp/exr_nuke_deadline_job_u1.txt'', ''/tmp/exr_nuke_deadline_plugin_u1.txt''],
      Message (''Failed to submit to Deadline!'' @ NL @ ''refused'')]
   \<and> map_of (files (snd (show_panel example_panel True example_world)))
        ''/tmp/exr_nuke_deadline_job_u0.txt'' =
     Some (concat [''Plugin=Nuke'' @ NL,
                   ''Name=Write1 - Rendered Image'' @ NL,
                   ''BatchName=shot010_v001.nk'' @ NL,
                   ''Frames=1000-1050'' @ NL,
                   ''ChunkSize=10'' @ NL,
                   ''Priority=33'' @ NL,
                   ''Pool=none'' @ NL,
                   ''Department=comp'' @ NL,
                   ''Comment=v1'' @ NL,
                   ''EnvironmentKeyValue0=OCIO=P:/ocio/config.ocio'' @ NL,
                   ''OutputDirectory0=/renders/a'' @ NL,
                   ''OutputDirectory0=/renders/a'' @ NL])"
  unfolding example_world_def example_panel_def example_node_def by code_simp

subsection \<open>The temporary script\<close>

text \<open>
  For a saved script, \<open>_build_temp_nuke_script\<close> is three steps: choose the new
  script path in the world that has the \<open>tmp\<close> directory, work out the output path
  (\<open>render_output\<close>), then generate and write the script (\<open>finish_script\<close>).
\<close>

definition render_output :: "node \<Rightarrow> string \<Rightarrow> string prog" where
  "render_output node current_script_path =
     bnd (\<lambda>w. ret (get_render_template w current_script_path) w) (\<lambda>render_path.
     bnd (if render_path = None \<or> render_path = Some []
          then bnd (makedirs (join (dirname (file_knob node)) ''review'')) (\<lambda>_.
               ret (join (join (dirname (file_knob node)) ''review'')
                      (re_sub_frame_suffix (basename (file_knob node)) @ ''.mov'')))
          else ret (the render_path)) (\<lambda>render_path.
     if render_path \<noteq> []
     then bnd (makedirs (dirname render_path)) (\<lambda>_. ret (py_replace [CHR 0x5C] ''/'' render_path))
     else if py_replace [CHR 0x5C] ''/'' (file_knob node) \<noteq> []
     then ret (py_replace [CHR 0x5C] ''/''
                (join (dirname (py_replace [CHR 0x5C] ''/'' (file_knob node))) ''output.mov''))
     else ret ''/tmp/output.exr''))"

definition finish_script :: "panel \<Rightarrow> node \<Rightarrow> string \<Rightarrow> string \<Rightarrow> (string \<times> string) prog" where
  "finish_script self node new_script_path output_file_path =
     bnd (\<lambda>w. write_script_content self (py_replace [CHR 0x5C] ''/'' (file_knob node))
                 output_file_path (get_resources_dir w) w) (\<lambda>nuke_script_content.
     bnd (open_w new_script_path) (\<lambda>_.
     bnd (case nuke_script_content of
            None \<Rightarrow> raise TypeError
          | Some text \<Rightarrow> write_text new_script_path text) (\<lambda>_.
     ret (new_script_path, output_file_path))))"

definition tmp_dir :: "world \<Rightarrow> string" where
  "tmp_dir w = join (dirname (root_name w)) ''tmp''"

definition with_tmp_dir :: "world \<Rightarrow> world" where
  "with_tmp_dir w =
     (let w1 = w\<lparr>events := events w @ [ScriptSave]\<rparr>
      in if \<not> path_exists w1 (tmp_dir w) then w1\<lparr>dirs := tmp_dir w # dirs w1\<rparr> else w1)"

lemma bnd_assoc: "bnd (bnd m f) g = bnd m (\<lambda>x. bnd (f x) g)"
  by (rule ext) (simp add: bnd_def split: prod.splits sum.splits)

lemma bnd_ret: "bnd (ret x) f = f x"
  by (rule ext) (simp add: bnd_def ret_def)

lemma bnd_if: "bnd (if c then m else n) f = (if c then bnd m f else bnd n f)"
  by simp

lemma build_temp_nuke_script_unsaved:
  assumes "root_name w = [] \<or> root_name w = ''Root''"
  shows "build_temp_nuke_script self node w =
     (Inl TypeError,
      w\<lparr>events := events w @ [Message ''Please save the Nuke script before submitting to Deadline.'']\<rparr>)"
  using assms
  by (auto simp: build_temp_nuke_script_def get_nuke_script_path_def Let_def bnd_def
                 emit_def ret_def raise_def)

lemma build_temp_nuke_script_saved:
  assumes "root_name w \<noteq> []" "root_name w \<noteq> ''Root''"
  shows "build_temp_nuke_script self node w =
     bnd (render_output node (root_name w))
       (finish_script self node
          (find_new_script_path (with_tmp_dir w) (tmp_dir w) (stem (root_name w)) 1))
       (with_tmp_dir w)"
proof -
  let ?w1 = "w\<lparr>events := events w @ [ScriptSave]\<rparr>"
  have g: "get_nuke_script_path w = (Inr (Some (root_name w)), ?w1)"
    using assms by (simp add: get_nuke_script_path_def Let_def bnd_def emit_def ret_def)
  have m: "(if \<not> path_exists ?w1 (tmp_dir w) then mkdir (tmp_dir w) else ret ()) ?w1
           = (Inr (), with_tmp_dir w)"
    by (simp add: mkdir_def ret_def with_tmp_dir_def Let_def)
  show ?thesis
    unfolding build_temp_nuke_script_def Let_def render_output_def finish_script_def
    apply (subst bnd_def [of get_nuke_script_path])
    apply (simp only: g prod.case sum.case option.case)
    apply (subst bnd_def)
    apply (simp only: m [unfolded tmp_dir_def] prod.case sum.case)
    apply (subst bnd_def)
    apply (simp only: ret_def [of "find_new_script_path _ _ _ _"] prod.case sum.case)
    apply (simp only: bnd_assoc bnd_ret bnd_if tmp_dir_def)
    done
qed

text \<open>A step keeps a field of the world when it returns it as it found it.\<close>

definition keeps :: "(world \<Rightarrow> 'b) \<Rightarrow> 'a prog \<Rightarrow> bool" where
  "keeps f m = (\<forall>w. f (snd (m w)) = f w)"


lemma keeps_raise: "keeps f (raise e)"
  by (simp add: keeps_def raise_def)

lemma keeps_lift: "keeps f (lift r)"
  by (simp add: keeps_def lift_def)



lemma keeps_read_file: "keeps f (read_file p)"
  by (simp add: keeps_def read_file_def split: option.splits)

lemma keeps_emit_files: "keeps files (emit e)"
  by (simp add: keeps_def emit_def)


lemma lift_pure: "lift r w = (r', w') \<Longrightarrow> w' = w"
  by (simp add: lift_def)
















lemma finish_script_result:
  "finish_script self node sp out w = (Inr res, w') \<Longrightarrow> res = (sp, out)"
  by (auto simp: finish_script_def bnd_def ret_def split: prod.splits sum.splits)







lemma review_build:
  "fst (build_temp_nuke_script example_panel
         (example_node ''Write1'' ''/renders/a/shot010.1001.exr'') review_world) =
   Inr (''/proj/comp/tmp/shot010_v001_tmp_02.nk'', ''/renders/a/review/shot010.mov'')"
  unfolding review_world_def example_world_def example_panel_def example_node_def by code_simp







subsection \<open>The fallback path of the review movie\<close>

lemma get_render_template_with_tmp_dir:
  "get_render_template (with_tmp_dir w) p = get_render_template w p"
  by (auto simp: get_render_template_def with_tmp_dir_def Let_def split: sum.splits)

lemma join_nonempty: "b \<noteq> [] \<Longrightarrow> join a b \<noteq> []"
  by (auto simp: join_def)

lemma render_output_fallback:
  assumes "get_render_template w csp = None \<or> get_render_template w csp = Some []"
      and "render_output node csp w = (Inr out, w')"
  shows "out = py_replace [CHR 0x5C] ''/''
                 (join (join (dirname (file_knob node)) ''review'')
                    (re_sub_frame_suffix (basename (file_knob node)) @ ''.mov''))"
proof -
  let ?p = "join (join (dirname (file_knob node)) ''review'')
                    (re_sub_frame_suffix (basename (file_knob node)) @ ''.mov'')"
  have ne: "?p \<noteq> []" by (rule join_nonempty) simp
  from assms show ?thesis
    unfolding render_output_def
    by (auto simp: bnd_def ret_def ne split: prod.splits sum.splits if_splits)
qed

lemma build_temp_nuke_script_output:
  assumes "build_temp_nuke_script self node w = (Inr (sp, out), w')"
  shows "\<exists>w1. render_output node (root_name w) (with_tmp_dir w) = (Inr out, w1)"
proof -
  have s: "root_name w \<noteq> []" "root_name w \<noteq> ''Root''"
    using assms build_temp_nuke_script_unsaved [of w self node] by auto
  from assms show ?thesis
    unfolding build_temp_nuke_script_saved [OF s]
    by (auto simp: bnd_def split: prod.splits sum.splits dest: finish_script_result)
qed

lemma basename_alt: "basename p = rev (takeWhile (\<lambda>c. c \<noteq> CHR ''/'') (rev p))"
proof -
  have "rev p = takeWhile (\<lambda>c. c \<noteq> CHR ''/'') (rev p) @ dropWhile (\<lambda>c. c \<noteq> CHR ''/'') (rev p)"
    by simp
  then have "p = rev (dropWhile (\<lambda>c. c \<noteq> CHR ''/'') (rev p)) @ rev (takeWhile (\<lambda>c. c \<noteq> CHR ''/'') (rev p))"
    by (metis rev_append rev_rev_ident)
  moreover have "sep_index p = length (rev (dropWhile (\<lambda>c. c \<noteq> CHR ''/'') (rev p)))"
    by (simp add: sep_index_def length_dropWhile_le) (metis add_diff_cancel_left' length_append length_rev takeWhile_dropWhile_id)
  ultimately show ?thesis
    unfolding basename_def by (metis append_eq_conv_conj)
qed

lemma basename_no_slash: "CHR ''/'' \<notin> set (basename p)"
  unfolding basename_alt by (auto dest: set_takeWhileD)

lemma basename_subset: "set (basename p) \<subseteq> set p"
  unfolding basename_def by (rule set_drop_subset)

lemma dirname_subset: "set (dirname p) \<subseteq> set p"
proof -
  have "set (rev (dropWhile (\<lambda>c. c = CHR ''/'') (rev (take n p)))) \<subseteq> set p" for n
    using set_dropWhileD [of _ "\<lambda>c. c = CHR ''/''" "rev (take n p)"] set_take_subset [of n p]
    by auto
  then show ?thesis
    using set_take_subset [of "sep_index p" p] by (auto simp: dirname_def Let_def)
qed

lemma frame_suffix_match_subset: "frame_suffix_match s = Some r \<Longrightarrow> set r \<subseteq> set s"
proof -
  assume a: "frame_suffix_match s = Some r"
  then obtain c t where s: "s = c # t" by (cases s) (auto simp: frame_suffix_match_def)
  from a s have "r = drop 4 (dropWhile is_digit t)"
    by (auto simp: frame_suffix_match_def Let_def split: if_splits)
  then have "set r \<subseteq> set t"
    using set_drop_subset [of 4 "dropWhile is_digit t"] set_dropWhileD [of _ is_digit t] by auto
  with s show ?thesis by auto
qed

lemma re_sub_frame_suffix_subset: "set (re_sub_frame_suffix s) \<subseteq> set s"
proof (induction s)
  case Nil
  show ?case by simp
next
  case (Cons c cs)
  show ?case
  proof (cases "frame_suffix_match (c # cs)")
    case None
    with Cons show ?thesis by auto
  next
    case (Some r)
    with frame_suffix_match_subset [OF Some] show ?thesis by simp
  qed
qed

lemma py_replace_absent: "a \<notin> set s \<Longrightarrow> py_replace [a] [b] s = s"
proof -
  assume "a \<notin> set s"
  then have "map (\<lambda>c. if c = a then b else c) s = s" by (induction s) auto
  then show ?thesis by (simp add: py_replace_def replace_ne_single)
qed


lemma review_path:
  assumes "d \<noteq> []" "last d \<noteq> CHR ''/''" "CHR ''/'' \<notin> set x"
  shows "join (join d ''review'') (x @ ''.mov'') = d @ ''/review/'' @ x @ ''.mov''"
proof -
  have 1: "join d ''review'' = d @ ''/review''" using assms(1,2) by (simp add: join_def)
  have 2: "hd (x @ ''.mov'') \<noteq> CHR ''/''" using assms(3) by (cases x) auto
  have 3: "last (d @ ''/review'') \<noteq> CHR ''/''" by simp
  show ?thesis unfolding 1 using 2 3 by (simp add: join_def)
qed

lemma re_sub_frame_suffix_keeps_head:
  assumes "\<forall>c\<in>set ds. is_digit c" "ds \<noteq> []"
  shows "frame_suffix_match (c # name @ ''.'' @ ds @ ''.exr'') = None"
proof -
  let ?tail = "''.'' @ ds @ ''.exr''"
  have nd: "\<not> is_digit (CHR ''.'')" by (simp add: is_digit_def)
  have "dropWhile is_digit (name @ ?tail) =
          (if \<forall>c\<in>set name. is_digit c then ?tail else dropWhile is_digit name @ ?tail)"
    using nd by (simp add: dropWhile_append)
  then have "length ?tail \<le> length (dropWhile is_digit (name @ ?tail))"
    by (simp split: if_splits)
  moreover have "6 \<le> length ?tail" using assms(2) by (cases ds) simp_all
  ultimately have "6 \<le> length (dropWhile is_digit (name @ ?tail))" by simp
  then have "dropWhile is_digit (name @ ?tail) \<noteq> ''.exr''"
            "dropWhile is_digit (name @ ?tail) \<noteq> ''.exr'' @ NL"
    by auto
  then show ?thesis by (simp add: frame_suffix_match_def Let_def)
qed

lemma frame_suffix_match_exact:
  assumes "\<forall>c\<in>set ds. is_digit c" "4 \<le> length ds"
  shows "frame_suffix_match (''.'' @ ds @ ''.exr'') = Some []"
proof -
  have nd: "\<not> is_digit (CHR ''.'')" by (simp add: is_digit_def)
  have t: "takeWhile is_digit (ds @ ''.exr'') = ds" using assms(1) nd by (simp add: takeWhile_append)
  have d: "dropWhile is_digit (ds @ ''.exr'') = ''.exr''" using assms(1) nd by (simp add: dropWhile_append)
  show ?thesis using assms(2) by (simp add: frame_suffix_match_def Let_def t d)
qed

lemma re_sub_frame_suffix_strips:
  assumes "\<forall>c\<in>set ds. is_digit c" "4 \<le> length ds"
  shows "re_sub_frame_suffix (name @ ''.'' @ ds @ ''.exr'') = name"
proof (induction name)
  case Nil
  have "re_sub_frame_suffix (''.'' @ ds @ ''.exr'') = []"
    using frame_suffix_match_exact [OF assms] by simp
  then show ?case by simp
next
  case (Cons c name)
  have "ds \<noteq> []" using assms(2) by auto
  from re_sub_frame_suffix_keeps_head [OF assms(1) this, of c name] Cons
  show ?case by simp
qed

text \<open>
  C6. When the template gives no path, and the file of the node has a directory part
  that is not empty and does not end in a slash, and holds no backslash, the review
  movie goes to that directory + \<open>/review/\<close> + the file name after the regular
  expression substitution + \<open>.mov\<close>. For a file name that ends in a dot, four or more
  digits and \<open>.exr\<close> the substitution removes exactly that ending.
\<close>

theorem build_temp_nuke_script_fallback_path:
  assumes "build_temp_nuke_script self node w = (Inr (sp, out), w')"
      and "get_render_template w (root_name w) = None
           \<or> get_render_template w (root_name w) = Some []"
      and "dirname (file_knob node) \<noteq> []"
      and "last (dirname (file_knob node)) \<noteq> CHR ''/''"
      and "CHR 0x5C \<notin> set (file_knob node)"
  shows "out = dirname (file_knob node) @ ''/review/''
                 @ re_sub_frame_suffix (basename (file_knob node)) @ ''.mov''
       \<and> (\<forall>name ds. basename (file_knob node) = name @ ''.'' @ ds @ ''.exr''
                      \<and> 4 \<le> length ds \<and> (\<forall>c\<in>set ds. is_digit c)
              \<longrightarrow> out = dirname (file_knob node) @ ''/review/'' @ name @ ''.mov'')"
proof -
  let ?f = "file_knob node"
  let ?x = "re_sub_frame_suffix (basename ?f)"
  obtain w1 where ro: "render_output node (root_name w) (with_tmp_dir w) = (Inr out, w1)"
    using build_temp_nuke_script_output [OF assms(1)] by blast
  have "out = py_replace [CHR 0x5C] ''/'' (join (join (dirname ?f) ''review'') (?x @ ''.mov''))"
    using render_output_fallback [OF _ ro] assms(2)
    by (simp add: get_render_template_with_tmp_dir)
  moreover have xs: "CHR ''/'' \<notin> set ?x"
    using re_sub_frame_suffix_subset [of "basename ?f"] basename_no_slash [of ?f] by auto
  ultimately have o: "out = py_replace [CHR 0x5C] ''/'' (dirname ?f @ ''/review/'' @ ?x @ ''.mov'')"
    using review_path [OF assms(3,4) xs] by simp
  have "CHR 0x5C \<notin> set (dirname ?f)" using dirname_subset [of ?f] assms(5) by auto
  moreover have "CHR 0x5C \<notin> set ?x"
    using re_sub_frame_suffix_subset [of "basename ?f"] basename_subset [of ?f] assms(5) by auto
  ultimately have "CHR 0x5C \<notin> set (dirname ?f @ ''/review/'' @ ?x @ ''.mov'')" by simp
  then have 1: "out = dirname ?f @ ''/review/'' @ ?x @ ''.mov''"
    using o py_replace_absent [of "CHR 0x5C" _ "CHR ''/''"] by simp
  have 2: "out = dirname ?f @ ''/review/'' @ name @ ''.mov''"
    if "basename ?f = name @ ''.'' @ ds @ ''.exr''" "4 \<le> length ds" "\<forall>c\<in>set ds. is_digit c"
    for name ds
    using 1 that re_sub_frame_suffix_strips [OF that(3,2), of name] by simp
  from 1 2 show ?thesis by blast
qed


lemma review_node_path:
  "dirname (file_knob (example_node ''Write1'' ''/renders/a/shot010.1001.exr'')) = ''/renders/a''"
  "basename (file_knob (example_node ''Write1'' ''/renders/a/shot010.1001.exr''))
     = ''shot010'' @ ''.'' @ ''1001'' @ ''.exr''"
  "get_render_template review_world (root_name review_world) = None"
  unfolding example_node_def review_world_def example_world_def by code_simp+

theorem build_temp_nuke_script_fallback_path_witness:
  "get_render_template review_world (root_name review_world) = None
   \<and> fst (build_temp_nuke_script example_panel
           (example_node ''Write1'' ''/renders/a/shot010.1001.exr'') review_world) =
       Inr (''/proj/comp/tmp/shot010_v001_tmp_02.nk'', ''/renders/a/review/shot010.mov'')
   \<and> ''/renders/a/review/shot010.mov'' =
       dirname (file_knob (example_node ''Write1'' ''/renders/a/shot010.1001.exr''))
         @ ''/review/'' @ ''shot010'' @ ''.mov''"
proof -
  let ?n = "example_node ''Write1'' ''/renders/a/shot010.1001.exr''"
  let ?b = "build_temp_nuke_script example_panel ?n review_world"
  have h: "?b = (Inr (''/proj/comp/tmp/shot010_v001_tmp_02.nk'', ''/renders/a/review/shot010.mov''),
                 snd ?b)"
    using review_build by (cases ?b) simp
  have d: "dirname (file_knob ?n) \<noteq> []" "last (dirname (file_knob ?n)) \<noteq> CHR ''/''"
    by (simp_all add: review_node_path(1))
  have b: "CHR 0x5C \<notin> set (file_knob ?n)" by (simp add: example_node_def)
  have g: "4 \<le> length ''1001''" "\<forall>c\<in>set ''1001''. is_digit c" by (simp_all add: is_digit_def)
  note t = build_temp_nuke_script_fallback_path [OF h disjI1 [OF review_node_path(3)] d b]
  from t have "''/renders/a/review/shot010.mov'' = dirname (file_knob ?n) @ ''/review/'' @ ''shot010'' @ ''.mov''"
    using review_node_path(2) g by blast
  then show ?thesis using review_build review_node_path(3) by blast
qed

text \<open>
  Two paths outside that: a file name without directory part gives the relative path
  \<open>review/shot010.mov\<close>, with no leading slash; and an extension other than
  \<open>.exr\<close> is not stripped, nor is the frame number before it.
\<close>

theorem build_temp_nuke_script_fallback_other_paths:
  "get_render_template review_world (root_name review_world) = None
   \<and> dirname ''shot010.1001.exr'' = []
   \<and> fst (build_temp_nuke_script example_panel
           (example_node ''Write1'' ''shot010.1001.exr'') review_world) =
       Inr (''/proj/comp/tmp/shot010_v001_tmp_02.nk'', ''review/shot010.mov'')
   \<and> fst (build_temp_nuke_script example_panel
           (example_node ''Write1'' ''/renders/a/shot010.1001.png'') review_world) =
       Inr (''/proj/comp/tmp/shot010_v001_tmp_02.nk'', ''/renders/a/review/shot010.1001.png.mov'')"
  unfolding example_node_def review_world_def example_world_def example_panel_def by code_simp

subsection \<open>A failure while the script text is generated\<close>

text \<open>
  C3. In the sample session the script template is not installed. Generating the text
  fails, the user is told, and \<open>_write_script_content\<close> returns \<open>None\<close>. The build
  then opens the new script file and writes \<open>None\<close> to it: a TypeError leaves the
  build and \<open>show\<close>, an empty script file stays behind, and nothing is submitted.
\<close>

theorem build_temp_nuke_script_raises_after_message:
  "map_of (files example_world) (join (resources_dir example_world) ''nuke_template.txt'') = None
   \<and> fst (build_temp_nuke_script example_panel
            (example_node ''Write1'' ''/renders/a/shot010.1001.exr'') example_world) = Inl TypeError
   \<and> events (snd (build_temp_nuke_script example_panel
            (example_node ''Write1'' ''/renders/a/shot010.1001.exr'') example_world)) =
       [ScriptSave,
        ErrorMessage ''Error generating Nuke script: '' (FileNotFoundError ''/res/nuke_template.txt'')]
   \<and> map_of (files (snd (build_temp_nuke_script example_panel
            (example_node ''Write1'' ''/renders/a/shot010.1001.exr'') example_world)))
         ''/proj/comp/tmp/shot010_v001_tmp_01.nk'' = Some []
   \<and> fst (show_panel (example_panel\<lparr>render_review := Knob True\<rparr>) True example_world)
       = Inl TypeError
   \<and> filter (\<lambda>e. case e of Run command \<Rightarrow> True | _ \<Rightarrow> False)
        (events (snd (show_panel (example_panel\<lparr>render_review := Knob True\<rparr>) True
                        example_world))) = []"
  unfolding example_world_def example_panel_def example_node_def by code_simp

end
